theory Spec2Isabelle
  imports Main
begin

section \<open>Python values\<close>

text \<open>
  The three tasks of \<^verbatim>\<open>dags/weather_etl_dag.py\<close> exchange JSON values: what
  \<^verbatim>\<open>response.json()\<close> returns, what XCom carries from one task to the next and what
  \<^verbatim>\<open>json.dump\<close> writes. A dict keeps its insertion order (the order decides the text that
  is written), so it is an association list; \<^verbatim>\<open>d.get(k)\<close> is \<open>map_of\<close>.

  The program never computes with a float: it reads floats from the API response or from
  its own literals, hands them on and prints them. A float is therefore carried as the text
  of its \<^verbatim>\<open>repr\<close> (\<^verbatim>\<open>51.5074\<close>, \<^verbatim>\<open>-0.1278\<close>, \<^verbatim>\<open>nan\<close>), which names the double
  uniquely. A \<^verbatim>\<open>str\<close> is a \<open>string\<close>, so its code points are those below 256.
\<close>

type_synonym pyfloat = string

datatype pyval =
    PNone
  | PBool bool
  | PInt int
  | PFloat pyfloat
  | PStr string
  | PList "pyval list"
  | PDict "(string \<times> pyval) list"

text \<open>Truth value testing, as \<^verbatim>\<open>if not raw_data\<close> applies it.\<close>

fun truthy :: "pyval \<Rightarrow> bool" where
  "truthy PNone = False"
| "truthy (PBool b) = b"
| "truthy (PInt i) = (i \<noteq> 0)"
| "truthy (PFloat r) = (r \<noteq> ''0.0'' \<and> r \<noteq> ''-0.0'')"
| "truthy (PStr s) = (s \<noteq> [])"
| "truthy (PList xs) = (xs \<noteq> [])"
| "truthy (PDict kvs) = (kvs \<noteq> [])"

fun type_name :: "pyval \<Rightarrow> string" where
  "type_name PNone = ''NoneType''"
| "type_name (PBool b) = ''bool''"
| "type_name (PInt i) = ''int''"
| "type_name (PFloat r) = ''float''"
| "type_name (PStr s) = ''str''"
| "type_name (PList xs) = ''list''"
| "type_name (PDict kvs) = ''dict''"

section \<open>Errors\<close>

text \<open>
  \<^verbatim>\<open>requests.exceptions.RequestException\<close> and its subclasses; \<open>HTTPError\<close> carries the
  status code, \<open>JSONDecodeError\<close> is what \<^verbatim>\<open>response.json()\<close> raises on a body that is
  not JSON (a \<^verbatim>\<open>RequestException\<close> since requests 2.27).
\<close>

datatype request_exception =
    ConnectionError
  | Timeout
  | TooManyRedirects
  | HTTPError nat
  | JSONDecodeError

type_synonym path = "string list"

text \<open>\<^verbatim>\<open>OSError\<close> (of which \<^verbatim>\<open>IOError\<close> is an alias) and its subclasses.\<close>

datatype os_error =
    FileExistsError path
  | FileNotFoundError path
  | NotADirectoryError path
  | IsADirectoryError path
  | PermissionError path
  | OtherOSError nat path

datatype error =
    ValueError string
  | AttributeError string
  | RequestException request_exception
  | OSError os_error

section \<open>The world a task runs in\<close>

text \<open>\<^verbatim>\<open>datetime\<close>: a naive local time, as \<^verbatim>\<open>datetime.now()\<close> returns it.\<close>

record datetime =
  year :: nat
  month :: nat
  day :: nat
  hour :: nat
  minute :: nat
  second :: nat
  microsecond :: nat

record request =
  url :: string
  params :: "(string \<times> pyval) list"
  timeout :: nat

text \<open>
  What \<^verbatim>\<open>requests.get\<close> does with a request: it raises, or it returns a response with a
  status code and a body. \<open>json_body\<close> is what \<^verbatim>\<open>response.json()\<close> makes of the body,
  \<open>None\<close> when the body is not JSON.
\<close>

datatype http_outcome =
    Raised request_exception
  | Responded (status_code: nat) (json_body: "pyval option")

datatype node = Dir | File string

datatype fs_op = MkdirOp path | OpenOp path | WriteOp path

datatype event =
    LogInfo string "pyval option"
  | LogError string error
  | HttpGet request
  | FsMkdir path
  | FsOpenW path
  | FsWrite path string

text \<open>
  \<open>now\<close> is the wall clock, \<open>net\<close> the network's answer to a request, \<open>fs\<close> the file
  system (a path is the list of its components below the root), \<open>fault\<close> the operations
  the operating system refuses whatever the tree looks like (permission denied, disk
  full), \<open>events\<close> the effects performed so far, the oldest first.
\<close>

record world =
  now :: datetime
  net :: "request \<Rightarrow> http_outcome"
  fs :: "path \<Rightarrow> node option"
  fault :: "fs_op \<Rightarrow> os_error option"
  events :: "event list"

definition emit :: "event \<Rightarrow> world \<Rightarrow> world" where
  "emit e w = w\<lparr>events := events w @ [e]\<rparr>"

text \<open>
  The XCom store of a run: the return value of each task that has returned one.
  \<^verbatim>\<open>xcom_pull\<close> gives \<^verbatim>\<open>None\<close> for a task without a value.
\<close>

type_synonym task_context = "string \<Rightarrow> pyval option"

definition xcom_pull :: "task_context \<Rightarrow> string \<Rightarrow> pyval" where
  "xcom_pull ctx task_ids = (case ctx task_ids of None \<Rightarrow> PNone | Some v \<Rightarrow> v)"

section \<open>Library functions the tasks call\<close>

subsection \<open>Formatting numbers and times\<close>

definition digit_char :: "nat \<Rightarrow> char" where
  "digit_char d = ''0123456789abcdef'' ! d"

fun dec_nat :: "nat \<Rightarrow> string" where
  "dec_nat n = (if n < 10 then [digit_char n] else dec_nat (n div 10) @ [digit_char (n mod 10)])"

declare dec_nat.simps [simp del]

definition dec_int :: "int \<Rightarrow> string" where
  "dec_int i = (if i < 0 then ''-'' @ dec_nat (nat (- i)) else dec_nat (nat i))"

text \<open>\<^verbatim>\<open>%0<width>d\<close>.\<close>

definition zero_pad :: "nat \<Rightarrow> nat \<Rightarrow> string" where
  "zero_pad width n = replicate (width - length (dec_nat n)) (CHR ''0'') @ dec_nat n"

text \<open>
  \<^verbatim>\<open>datetime.isoformat()\<close> of a naive datetime: the microseconds are printed only when
  they are not zero.
\<close>

definition isoformat :: "datetime \<Rightarrow> string" where
  "isoformat d =
     zero_pad 4 (year d) @ ''-'' @ zero_pad 2 (month d) @ ''-'' @ zero_pad 2 (day d) @ ''T'' @
     zero_pad 2 (hour d) @ '':'' @ zero_pad 2 (minute d) @ '':'' @ zero_pad 2 (second d) @
     (if microsecond d = 0 then [] else ''.'' @ zero_pad 6 (microsecond d))"

text \<open>
  \<^verbatim>\<open>strftime('%Y%m%d_%H%M%S')\<close>. \<^verbatim>\<open>%Y\<close> is the year in four digits, as documented;
  a C library that leaves a year below 1000 unpadded differs only there, where no clock
  reads.
\<close>

definition strftime_compact :: "datetime \<Rightarrow> string" where
  "strftime_compact d =
     zero_pad 4 (year d) @ zero_pad 2 (month d) @ zero_pad 2 (day d) @ ''_'' @
     zero_pad 2 (hour d) @ zero_pad 2 (minute d) @ zero_pad 2 (second d)"

subsection \<open>\<^verbatim>\<open>dict.get\<close>\<close>

text \<open>
  \<^verbatim>\<open>obj.get(key, default)\<close>: only a dict has the method; on any other value the
  attribute lookup raises \<^verbatim>\<open>AttributeError\<close>.
\<close>

definition py_get :: "pyval \<Rightarrow> string \<Rightarrow> pyval \<Rightarrow> error + pyval" where
  "py_get obj key dflt =
     (case obj of
        PDict kvs \<Rightarrow> Inr (case map_of kvs key of None \<Rightarrow> dflt | Some v \<Rightarrow> v)
      | _ \<Rightarrow> Inl (AttributeError (type_name obj)))"

text \<open>Reading a key of a record, for stating properties: \<open>None\<close> on a value that is no dict.\<close>

definition field :: "pyval \<Rightarrow> string \<Rightarrow> pyval option" where
  "field obj key = (case obj of PDict kvs \<Rightarrow> map_of kvs key | _ \<Rightarrow> None)"

subsection \<open>\<^verbatim>\<open>json.dump\<close> with an indent\<close>

text \<open>
  \<^verbatim>\<open>json.encoder.py_encode_basestring_ascii\<close>: backslash, the double quote and five
  control characters have short escapes, the printable ASCII characters stand for
  themselves, every other character is written \<^verbatim>\<open>\u00xx\<close>.
\<close>

definition esc_char :: "char \<Rightarrow> string" where
  "esc_char c =
     (if c = CHR 0x5C then [CHR 0x5C, CHR 0x5C]
      else if c = CHR 0x22 then [CHR 0x5C, CHR 0x22]
      else if c = CHR 0x08 then [CHR 0x5C, CHR ''b'']
      else if c = CHR 0x0C then [CHR 0x5C, CHR ''f'']
      else if c = CHR 0x0A then [CHR 0x5C, CHR ''n'']
      else if c = CHR 0x0D then [CHR 0x5C, CHR ''r'']
      else if c = CHR 0x09 then [CHR 0x5C, CHR ''t'']
      else if 32 \<le> (of_char c :: nat) \<and> (of_char c :: nat) \<le> 126 then [c]
      else [CHR 0x5C, CHR ''u'', CHR ''0'', CHR ''0'',
            digit_char ((of_char c :: nat) div 16), digit_char ((of_char c :: nat) mod 16)])"

definition encode_str :: "string \<Rightarrow> string" where
  "encode_str s = [CHR 0x22] @ concat (map esc_char s) @ [CHR 0x22]"

text \<open>\<^verbatim>\<open>json.encoder.floatstr\<close>: the \<^verbatim>\<open>repr\<close>, but for the three values JSON has no name for.\<close>

definition floatstr :: "pyfloat \<Rightarrow> string" where
  "floatstr r =
     (if r = ''nan'' then ''NaN''
      else if r = ''inf'' then ''Infinity''
      else if r = ''-inf'' then ''-Infinity''
      else r)"

definition newline_indent :: "nat \<Rightarrow> nat \<Rightarrow> string" where
  "newline_indent ind lvl = CHR 0x0A # replicate (ind * lvl) (CHR '' '')"

fun join :: "string \<Rightarrow> string list \<Rightarrow> string" where
  "join sep [] = []"
| "join sep [x] = x"
| "join sep (x # y # ys) = x @ sep @ join sep (y # ys)"

text \<open>
  \<^verbatim>\<open>json.encoder._make_iterencode\<close> with \<^verbatim>\<open>indent\<close> an integer: the item separator is
  \<^verbatim>\<open>','\<close>, the key separator \<^verbatim>\<open>': '\<close>; an empty container is written without a line
  break, every item of a non-empty one on a line of its own, indented one level deeper
  than the container. \<open>lvl\<close> is \<^verbatim>\<open>_current_indent_level\<close>.
\<close>

fun iterencode :: "nat \<Rightarrow> nat \<Rightarrow> pyval \<Rightarrow> string" where
  "iterencode ind lvl PNone = ''null''"
| "iterencode ind lvl (PBool b) = (if b then ''true'' else ''false'')"
| "iterencode ind lvl (PInt i) = dec_int i"
| "iterencode ind lvl (PFloat r) = floatstr r"
| "iterencode ind lvl (PStr s) = encode_str s"
| "iterencode ind lvl (PList xs) =
     (if xs = [] then ''[]''
      else ''['' @ newline_indent ind (Suc lvl) @
           join ('','' @ newline_indent ind (Suc lvl)) (map (iterencode ind (Suc lvl)) xs) @
           newline_indent ind lvl @ '']'')"
| "iterencode ind lvl (PDict kvs) =
     (if kvs = [] then ''{}''
      else ''{'' @ newline_indent ind (Suc lvl) @
           join ('','' @ newline_indent ind (Suc lvl))
             (map (\<lambda>(k, v). encode_str k @ '': '' @ iterencode ind (Suc lvl) v) kvs) @
           newline_indent ind lvl @ ''}'')"

definition json_dumps :: "nat \<Rightarrow> pyval \<Rightarrow> string" where
  "json_dumps ind obj = iterencode ind 0 obj"

subsection \<open>The file system\<close>

text \<open>\<^verbatim>\<open>str(path)\<close> of an absolute path.\<close>

definition path_str :: "path \<Rightarrow> string" where
  "path_str p = concat (map (\<lambda>c. ''/'' @ c) p)"

text \<open>
  \<^verbatim>\<open>Path.mkdir(parents=True, exist_ok=True)\<close>, walking down from \<open>pre\<close> through the
  components \<open>cs\<close>: a directory that exists is left alone, a missing one is created
  unless the operating system refuses, and a regular file in the way is an error
  (\<^verbatim>\<open>FileExistsError\<close> at the last component, \<^verbatim>\<open>NotADirectoryError\<close> above it). The
  world returned with an error holds the directories created before it.
\<close>

fun mkdir_parents :: "path \<Rightarrow> string list \<Rightarrow> world \<Rightarrow> (os_error + unit) \<times> world" where
  "mkdir_parents pre [] w = (Inr (), w)"
| "mkdir_parents pre (c # cs) w =
     (case fs w (pre @ [c]) of
        Some Dir \<Rightarrow> mkdir_parents (pre @ [c]) cs w
      | Some (File t) \<Rightarrow>
          (Inl (if cs = [] then FileExistsError (pre @ [c]) else NotADirectoryError (pre @ [c])), w)
      | None \<Rightarrow>
          (case fault w (MkdirOp (pre @ [c])) of
             Some e \<Rightarrow> (Inl e, w)
           | None \<Rightarrow>
               mkdir_parents (pre @ [c]) cs
                 (emit (FsMkdir (pre @ [c])) (w\<lparr>fs := (fs w)(pre @ [c] \<mapsto> Dir)\<rparr>))))"

text \<open>
  \<^verbatim>\<open>open(p, 'w')\<close>: creates the file or truncates it. It fails when the operating system
  refuses, when \<open>p\<close> is a directory and when the parent of \<open>p\<close> is not a directory.
\<close>

definition open_w :: "path \<Rightarrow> world \<Rightarrow> (os_error + unit) \<times> world" where
  "open_w p w =
     (case fault w (OpenOp p) of
        Some e \<Rightarrow> (Inl e, w)
      | None \<Rightarrow>
          (case fs w p of
             Some Dir \<Rightarrow> (Inl (IsADirectoryError p), w)
           | _ \<Rightarrow>
               (case fs w (butlast p) of
                  Some Dir \<Rightarrow> (Inr (), emit (FsOpenW p) (w\<lparr>fs := (fs w)(p \<mapsto> File [])\<rparr>))
                | Some (File t) \<Rightarrow> (Inl (NotADirectoryError p), w)
                | None \<Rightarrow> (Inl (FileNotFoundError p), w))))"

text \<open>
  Writing \<open>text\<close> to the open file \<open>p\<close> and closing it. The text is buffered until the
  file is closed, so a refused write leaves the file as \<^verbatim>\<open>open\<close> truncated it.
\<close>

definition write_close :: "path \<Rightarrow> string \<Rightarrow> world \<Rightarrow> (os_error + unit) \<times> world" where
  "write_close p text w =
     (case fault w (WriteOp p) of
        Some e \<Rightarrow> (Inl e, w)
      | None \<Rightarrow> (Inr (), emit (FsWrite p text) (w\<lparr>fs := (fs w)(p \<mapsto> File text)\<rparr>)))"

section \<open>The three tasks\<close>

subsection \<open>\<^verbatim>\<open>fetch_weather\<close>\<close>







subsection \<open>\<^verbatim>\<open>transform_weather\<close>\<close>

definition location :: pyval where
  "location =
     PDict [(''name'', PStr ''London''),
            (''latitude'', PFloat ''51.5074''),
            (''longitude'', PFloat ''-0.1278'')]"

text \<open>
  The dict display evaluates \<^verbatim>\<open>datetime.now().isoformat()\<close> first and the three
  \<^verbatim>\<open>current.get\<close> calls after it, in the order written; the first that raises ends the
  task.
\<close>

definition transform_weather :: "task_context \<Rightarrow> world \<Rightarrow> (error + pyval) \<times> world" where
  "transform_weather ctx w =
     (let w1 = emit (LogInfo ''Starting weather transform task...'' None) w;
          raw_data = xcom_pull ctx ''fetch_weather''
      in if \<not> truthy raw_data
         then (Inl (ValueError ''No weather data received from fetch task''), w1)
         else
           (case py_get raw_data ''current'' (PDict []) of
              Inl e \<Rightarrow> (Inl e, w1)
            | Inr current \<Rightarrow>
                (let timestamp = isoformat (now w) in
                 case py_get current ''temperature_2m'' PNone of
                   Inl e \<Rightarrow> (Inl e, w1)
                 | Inr temperature \<Rightarrow>
                     (case py_get current ''relative_humidity_2m'' PNone of
                        Inl e \<Rightarrow> (Inl e, w1)
                      | Inr humidity \<Rightarrow>
                          (case py_get current ''weather_code'' PNone of
                             Inl e \<Rightarrow> (Inl e, w1)
                           | Inr code \<Rightarrow>
                               (let transformed =
                                      PDict [(''timestamp'', PStr timestamp),
                                             (''location'', location),
                                             (''weather'',
                                              PDict [(''temperature_celsius'', temperature),
                                                     (''humidity_percent'', humidity),
                                                     (''weather_code'', code)])]
                                in (Inr transformed,
                                    emit (LogInfo ''Transformed weather data: '' (Some transformed))
                                      w1)))))))"

subsection \<open>\<^verbatim>\<open>save_weather\<close>\<close>

definition output_dir :: path where
  "output_dir = [''home'', ''airflow'', ''data'']"

definition file_path :: "datetime \<Rightarrow> path" where
  "file_path d = output_dir @ [''weather_'' @ strftime_compact d @ ''.json'']"

text \<open>
  \<^verbatim>\<open>mkdir\<close> stands before the \<^verbatim>\<open>try\<close> block: its error propagates unlogged. An
  \<^verbatim>\<open>IOError\<close> of \<^verbatim>\<open>open\<close> or of the write is logged and raised again.
\<close>

definition save_failed :: "os_error \<Rightarrow> world \<Rightarrow> (error + string) \<times> world" where
  "save_failed e w =
     (Inl (OSError e), emit (LogError ''Error saving weather data: '' (OSError e)) w)"

definition save_weather :: "task_context \<Rightarrow> world \<Rightarrow> (error + string) \<times> world" where
  "save_weather ctx w =
     (let w1 = emit (LogInfo ''Starting weather save task...'' None) w;
          weather_data = xcom_pull ctx ''transform_weather''
      in if \<not> truthy weather_data
         then (Inl (ValueError ''No weather data received from transform task''), w1)
         else
           (case mkdir_parents [] output_dir w1 of
              (Inl e, w2) \<Rightarrow> (Inl (OSError e), w2)
            | (Inr u, w2) \<Rightarrow>
                (let p = file_path (now w) in
                 case open_w p w2 of
                   (Inl e, w3) \<Rightarrow> save_failed e w3
                 | (Inr u, w3) \<Rightarrow>
                     (case write_close p (json_dumps 2 weather_data) w3 of
                        (Inl e, w4) \<Rightarrow> save_failed e w4
                      | (Inr u, w4) \<Rightarrow>
                          (Inr (path_str p),
                           emit (LogInfo (''Weather data successfully saved to '' @ path_str p) None)
                             w4)))))"

section \<open>Stating the properties\<close>

text \<open>
  The directories \<^verbatim>\<open>mkdir\<close> walks through, from the first component below \<open>pre\<close> down
  to the path itself.
\<close>

fun ancestors :: "path \<Rightarrow> string list \<Rightarrow> path list" where
  "ancestors pre [] = []"
| "ancestors pre (c # cs) = (pre @ [c]) # ancestors (pre @ [c]) cs"

text \<open>
  \<open>dir_ok w p\<close>: the directory \<open>p\<close> is there, or it is missing and the operating system
  lets it be created. \<open>save_permitted w\<close>: no file system error awaits \<^verbatim>\<open>save_weather\<close>
  in \<open>w\<close>: every directory down to the output directory is \<open>dir_ok\<close>, the file to write
  is no directory, and opening and writing it are not refused.
\<close>

definition dir_ok :: "world \<Rightarrow> path \<Rightarrow> bool" where
  "dir_ok w p =
     (case fs w p of
        Some Dir \<Rightarrow> True
      | Some (File t) \<Rightarrow> False
      | None \<Rightarrow> fault w (MkdirOp p) = None)"

definition save_permitted :: "world \<Rightarrow> bool" where
  "save_permitted w =
     (list_all (dir_ok w) (ancestors [] output_dir) \<and>
      fs w (file_path (now w)) \<noteq> Some Dir \<and>
      fault w (OpenOp (file_path (now w))) = None \<and>
      fault w (WriteOp (file_path (now w))) = None)"

text \<open>
  The world after the directories \<open>ps\<close> have been made sure of: each is a directory, and
  those that were missing have been created, in the order of \<open>ps\<close>.
\<close>

definition with_dirs :: "path list \<Rightarrow> world \<Rightarrow> world" where
  "with_dirs ps w =
     w\<lparr>fs := (\<lambda>p. if p \<in> set ps then Some Dir else fs w p),
       events := events w @ map FsMkdir (filter (\<lambda>p. fs w p = None) ps)\<rparr>"


fun is_fs_event :: "event \<Rightarrow> bool" where
  "is_fs_event (FsMkdir p) = True"
| "is_fs_event (FsOpenW p) = True"
| "is_fs_event (FsWrite p t) = True"
| "is_fs_event e = False"

subsection \<open>Concrete inputs\<close>

text \<open>The clock at 2026-01-13T10:00:00.\<close>

definition clock0 :: datetime where
  "clock0 = \<lparr>year = 2026, month = 1, day = 13, hour = 10, minute = 0, second = 0,
             microsecond = 0\<rparr>"

text \<open>
  A world with that clock, an unreachable network, a file system holding \<^verbatim>\<open>/home\<close> only
  and an operating system that refuses nothing.
\<close>

definition world0 :: world where
  "world0 =
     \<lparr>now = clock0,
      net = (\<lambda>r. Raised ConnectionError),
      fs = [[] \<mapsto> Dir, [''home''] \<mapsto> Dir],
      fault = (\<lambda>op. None),
      events = []\<rparr>"


text \<open>The same world with a regular file where \<^verbatim>\<open>/home/airflow\<close> should be.\<close>

definition world_blocked :: world where
  "world_blocked = world0\<lparr>fs := (fs world0)([''home'', ''airflow''] \<mapsto> File ''x'')\<rparr>"

definition raw_example :: pyval where
  "raw_example =
     PDict [(''current'',
             PDict [(''temperature_2m'', PFloat ''15.3''),
                    (''relative_humidity_2m'', PInt 80),
                    (''weather_code'', PInt 3)])]"

definition record_example :: pyval where
  "record_example =
     PDict [(''timestamp'', PStr ''2026-01-13T10:00:00''),
            (''location'',
             PDict [(''name'', PStr ''London''),
                    (''latitude'', PFloat ''51.5074''),
                    (''longitude'', PFloat ''-0.1278'')]),
            (''weather'',
             PDict [(''temperature_celsius'', PFloat ''15.3''),
                    (''humidity_percent'', PInt 80),
                    (''weather_code'', PInt 3)])]"

definition quoted :: "string \<Rightarrow> string" where
  "quoted s = CHR 0x22 # s @ [CHR 0x22]"

text \<open>The text of \<open>record_example\<close> with an indent of two spaces, line by line.\<close>

definition record_text :: string where
  "record_text =
     join [CHR 0x0A]
       [''{'',
        ''  '' @ quoted ''timestamp'' @ '': '' @ quoted ''2026-01-13T10:00:00'' @ '','',
        ''  '' @ quoted ''location'' @ '': {'',
        ''    '' @ quoted ''name'' @ '': '' @ quoted ''London'' @ '','',
        ''    '' @ quoted ''latitude'' @ '': 51.5074,'',
        ''    '' @ quoted ''longitude'' @ '': -0.1278'',
        ''  },'',
        ''  '' @ quoted ''weather'' @ '': {'',
        ''    '' @ quoted ''temperature_celsius'' @ '': 15.3,'',
        ''    '' @ quoted ''humidity_percent'' @ '': 80,'',
        ''    '' @ quoted ''weather_code'' @ '': 3'',
        ''  }'',
        ''}'']"

section \<open>Effects\<close>

lemma emit_fields:
  "fs (emit e w) = fs w" "fault (emit e w) = fault w" "now (emit e w) = now w"
  "net (emit e w) = net w" "events (emit e w) = events w @ [e]"
  by (simp_all add: emit_def)


section \<open>The Transformer\<close>

text \<open>
  On a non-empty dict whose \<^verbatim>\<open>current\<close> is a dict \<open>cur\<close> (or is missing, and then
  \<open>cur\<close> is the empty default), the task returns this record: a key \<open>cur\<close> lacks reads
  as \<^verbatim>\<open>None\<close>.
\<close>

lemma transform_on_dict:
  assumes "ctx ''fetch_weather'' = Some (PDict kvs)" and "kvs \<noteq> []"
    and "py_get (PDict kvs) ''current'' (PDict []) = Inr (PDict cur)"
  shows "fst (transform_weather ctx w) =
           Inr (PDict [(''timestamp'', PStr (isoformat (now w))),
                       (''location'', location),
                       (''weather'',
                        PDict [(''temperature_celsius'',
                                case map_of cur ''temperature_2m'' of None \<Rightarrow> PNone | Some v \<Rightarrow> v),
                               (''humidity_percent'',
                                case map_of cur ''relative_humidity_2m'' of None \<Rightarrow> PNone | Some v \<Rightarrow> v),
                               (''weather_code'',
                                case map_of cur ''weather_code'' of None \<Rightarrow> PNone | Some v \<Rightarrow> v)])])"
  using assms by (simp add: transform_weather_def xcom_pull_def Let_def py_get_def)

lemma now_world0: "now world0 = clock0"
  by (simp add: world0_def)

lemma isoformat_clock0: "isoformat clock0 = ''2026-01-13T10:00:00''"
  by code_simp


text \<open>
  C1. Whenever the API response is a JSON object whose \<^verbatim>\<open>current\<close> object holds
  \<^verbatim>\<open>temperature_2m\<close>, \<^verbatim>\<open>relative_humidity_2m\<close> and \<^verbatim>\<open>weather_code\<close>, the Transformer
  returns a record whose \<^verbatim>\<open>weather\<close> object is exactly these three values under the keys
  \<^verbatim>\<open>temperature_celsius\<close>, \<^verbatim>\<open>humidity_percent\<close> and \<^verbatim>\<open>weather_code\<close>, and whose
  \<^verbatim>\<open>location\<close> object is London at 51.5074, -0.1278.
\<close>

theorem transform_weather_fields:
  assumes "ctx ''fetch_weather'' = Some (PDict kvs)"
    and "map_of kvs ''current'' = Some (PDict cur)"
    and "map_of cur ''temperature_2m'' = Some t"
    and "map_of cur ''relative_humidity_2m'' = Some h"
    and "map_of cur ''weather_code'' = Some c"
  shows "\<exists>rec. fst (transform_weather ctx w) = Inr rec \<and>
           field rec ''weather'' =
             Some (PDict [(''temperature_celsius'', t), (''humidity_percent'', h),
                          (''weather_code'', c)]) \<and>
           field rec ''location'' =
             Some (PDict [(''name'', PStr ''London''), (''latitude'', PFloat ''51.5074''),
                          (''longitude'', PFloat ''-0.1278'')])"
proof -
  from assms(2) have ne: "kvs \<noteq> []" by auto
  from assms(2) have cur: "py_get (PDict kvs) ''current'' (PDict []) = Inr (PDict cur)"
    by (simp add: py_get_def)
  show ?thesis
    using transform_on_dict [of ctx kvs cur w] assms ne cur
    by (simp add: field_def location_def)
qed

theorem transform_weather_fields_witness:
  "\<exists>rec. fst (transform_weather [''fetch_weather'' \<mapsto> raw_example] world0) = Inr rec \<and>
     field rec ''weather'' =
       Some (PDict [(''temperature_celsius'', PFloat ''15.3''), (''humidity_percent'', PInt 80),
                    (''weather_code'', PInt 3)]) \<and>
     field rec ''location'' =
       Some (PDict [(''name'', PStr ''London''), (''latitude'', PFloat ''51.5074''),
                    (''longitude'', PFloat ''-0.1278'')])"
  by (rule transform_weather_fields
        [where kvs = "[(''current'',
             PDict [(''temperature_2m'', PFloat ''15.3''),
                    (''relative_humidity_2m'', PInt 80),
                    (''weather_code'', PInt 3)])]"
           and cur = "[(''temperature_2m'', PFloat ''15.3''),
                    (''relative_humidity_2m'', PInt 80),
                    (''weather_code'', PInt 3)]"])
     (simp_all add: raw_example_def)

text \<open>
  C2, as stated, fails: the response \<^verbatim>\<open>{"current": null}\<close> is a non-empty JSON object
  in which all three fields are missing, and the Transformer raises \<^verbatim>\<open>AttributeError\<close> on
  it, because \<^verbatim>\<open>raw_data.get('current', {})\<close> returns the \<^verbatim>\<open>None\<close> that is there and
  \<^verbatim>\<open>None\<close> has no \<^verbatim>\<open>get\<close>.
\<close>

theorem transform_null_current_raises:
  "truthy (PDict [(''current'', PNone)]) \<and>
   field (PDict [(''current'', PNone)]) ''current'' = Some PNone \<and>
   fst (transform_weather [''fetch_weather'' \<mapsto> PDict [(''current'', PNone)]] world0) =
     Inl (AttributeError ''NoneType'')"
  by (simp add: transform_weather_def xcom_pull_def py_get_def field_def Let_def)

text \<open>
  C2, amended. For every non-empty API response (a JSON object) in which \<^verbatim>\<open>current\<close> is
  absent or is itself a JSON object, the Transformer succeeds: each of the three fields
  that \<^verbatim>\<open>current\<close> lacks is null in the \<^verbatim>\<open>weather\<close> object of the output, and each field
  it has is carried over.
\<close>

theorem transform_missing_fields_null:
  assumes "ctx ''fetch_weather'' = Some (PDict kvs)" and "kvs \<noteq> []"
    and "case map_of kvs ''current'' of None \<Rightarrow> cur = [] | Some v \<Rightarrow> v = PDict cur"
  shows "\<exists>t h c. fst (transform_weather ctx w) =
           Inr (PDict [(''timestamp'', PStr (isoformat (now w))),
                       (''location'', location),
                       (''weather'',
                        PDict [(''temperature_celsius'', t), (''humidity_percent'', h),
                               (''weather_code'', c)])]) \<and>
           (map_of cur ''temperature_2m'' = None \<longrightarrow> t = PNone) \<and>
           (map_of cur ''relative_humidity_2m'' = None \<longrightarrow> h = PNone) \<and>
           (map_of cur ''weather_code'' = None \<longrightarrow> c = PNone) \<and>
           (\<forall>v. map_of cur ''temperature_2m'' = Some v \<longrightarrow> t = v) \<and>
           (\<forall>v. map_of cur ''relative_humidity_2m'' = Some v \<longrightarrow> h = v) \<and>
           (\<forall>v. map_of cur ''weather_code'' = Some v \<longrightarrow> c = v)"
proof -
  from assms(3) have "py_get (PDict kvs) ''current'' (PDict []) = Inr (PDict cur)"
    by (simp add: py_get_def split: option.splits)
  then show ?thesis
    using transform_on_dict [of ctx kvs cur w] assms(1,2) by simp
qed

theorem transform_missing_fields_null_witness:
  "fst (transform_weather [''fetch_weather'' \<mapsto> PDict [(''latitude'', PFloat ''51.5'')]] world0) =
     Inr (PDict [(''timestamp'', PStr ''2026-01-13T10:00:00''),
                 (''location'', location),
                 (''weather'',
                  PDict [(''temperature_celsius'', PNone), (''humidity_percent'', PNone),
                         (''weather_code'', PNone)])]) \<and>
   fst (transform_weather
          [''fetch_weather'' \<mapsto> PDict [(''current'', PDict [(''weather_code'', PInt 3)])]] world0) =
     Inr (PDict [(''timestamp'', PStr ''2026-01-13T10:00:00''),
                 (''location'', location),
                 (''weather'',
                  PDict [(''temperature_celsius'', PNone), (''humidity_percent'', PNone),
                         (''weather_code'', PInt 3)])])"
  using transform_missing_fields_null
      [of "[''fetch_weather'' \<mapsto> PDict [(''latitude'', PFloat ''51.5'')]]"
          "[(''latitude'', PFloat ''51.5'')]" "[]" world0]
    transform_missing_fields_null
      [of "[''fetch_weather'' \<mapsto> PDict [(''current'', PDict [(''weather_code'', PInt 3)])]]"
          "[(''current'', PDict [(''weather_code'', PInt 3)])]"
          "[(''weather_code'', PInt 3)]" world0]
  by (auto simp: now_world0 isoformat_clock0)





text \<open>
  C9. The result of the Transformer is a function of the value handed over and of the
  clock alone: two runs that pull the same value at the same time return the same
  result, whatever else differs between their worlds (the second run may come after the
  first and see its log lines).
\<close>

theorem transform_weather_deterministic:
  assumes "xcom_pull ctx' ''fetch_weather'' = xcom_pull ctx ''fetch_weather''"
    and "now w' = now w"
  shows "fst (transform_weather ctx' w') = fst (transform_weather ctx w)"
  using assms
  by (simp add: transform_weather_def Let_def split: sum.splits)

theorem transform_weather_deterministic_witness:
  "fst (transform_weather [''fetch_weather'' \<mapsto> raw_example]
          (snd (transform_weather [''fetch_weather'' \<mapsto> raw_example] world0))) =
   fst (transform_weather [''fetch_weather'' \<mapsto> raw_example] world0)"
  by (rule transform_weather_deterministic)
     (simp_all add: transform_weather_def Let_def emit_def split: sum.splits)

section \<open>The Fetcher\<close>




section \<open>The Persister\<close>

subsection \<open>Making the output directory\<close>

lemma ancestors_longer: "p \<in> set (ancestors pre cs) \<Longrightarrow> length pre < length p"
  by (induction cs arbitrary: pre) fastforce+

lemma ancestors_not_pre: "pre \<notin> set (ancestors pre cs)"
  using ancestors_longer [of pre pre cs] by auto

lemma dir_ok_emit: "dir_ok (emit e w) = dir_ok w"
  by (simp add: dir_ok_def fun_eq_iff emit_fields cong: option.case_cong)

text \<open>
  Where every directory on the way is there or may be created, \<^verbatim>\<open>mkdir\<close> succeeds and
  leaves all of them directories; it touches nothing else.
\<close>

lemma mkdir_parents_ok:
  "list_all (dir_ok w) (ancestors pre cs) \<Longrightarrow>
   mkdir_parents pre cs w = (Inr (), with_dirs (ancestors pre cs) w)"
proof (induction cs arbitrary: pre w)
  case Nil
  then show ?case by (simp add: with_dirs_def)
next
  case (Cons c cs)
  let ?p = "pre @ [c]"
  from Cons.prems have ok: "dir_ok w ?p" and rest: "list_all (dir_ok w) (ancestors ?p cs)"
    by simp_all
  show ?case
  proof (cases "fs w ?p")
    case None
    with ok have nofault: "fault w (MkdirOp ?p) = None"
      by (simp add: dir_ok_def)
    let ?w = "emit (FsMkdir ?p) (w\<lparr>fs := (fs w)(?p \<mapsto> Dir)\<rparr>)"
    have same: "\<forall>q \<in> set (ancestors ?p cs). fs ?w q = fs w q"
      using ancestors_not_pre [of ?p cs] by (auto simp: emit_def)
    have "list_all (dir_ok ?w) (ancestors ?p cs)"
      using rest same
      by (auto simp: list_all_iff dir_ok_def emit_def split: option.splits node.splits)
    then have "mkdir_parents ?p cs ?w = (Inr (), with_dirs (ancestors ?p cs) ?w)"
      by (rule Cons.IH)
    moreover have "filter (\<lambda>q. fs ?w q = None) (ancestors ?p cs) =
                   filter (\<lambda>q. fs w q = None) (ancestors ?p cs)"
      using same by (auto intro: filter_cong)
    then have "with_dirs (ancestors ?p cs) ?w = with_dirs (ancestors pre (c # cs)) w"
      using None by (auto simp: with_dirs_def emit_def fun_eq_iff)
    ultimately show ?thesis
      using None nofault by simp
  next
    case (Some n)
    with ok have dir: "fs w ?p = Some Dir"
      by (cases n) (simp_all add: dir_ok_def)
    have "mkdir_parents ?p cs w = (Inr (), with_dirs (ancestors ?p cs) w)"
      using rest by (rule Cons.IH)
    moreover have "with_dirs (ancestors ?p cs) w = with_dirs (ancestors pre (c # cs)) w"
      using dir by (auto simp: with_dirs_def fun_eq_iff)
    ultimately show ?thesis
      using dir by simp
  qed
qed

subsection \<open>Writing the file\<close>

lemma butlast_file_path: "butlast (file_path d) = output_dir"
  by (simp add: file_path_def butlast_append)

lemma ancestors_output_dir:
  "ancestors [] output_dir = [[''home''], [''home'', ''airflow''], [''home'', ''airflow'', ''data'']]"
  by (simp add: output_dir_def)

lemma file_path_not_ancestor: "file_path d \<notin> set (ancestors [] output_dir)"
  by (simp add: ancestors_output_dir) (simp add: file_path_def output_dir_def)

lemma output_dir_ancestor: "output_dir \<in> set (ancestors [] output_dir)"
  by (simp add: ancestors_output_dir) (simp add: output_dir_def)

lemma path_str_file_path:
  "path_str (file_path d) = ''/home/airflow/data/weather_'' @ strftime_compact d @ ''.json''"
  by (simp add: path_str_def file_path_def output_dir_def)

lemma strftime_clock0: "strftime_compact clock0 = ''20260113_100000''"
  by code_simp

lemma json_dumps_record_example: "json_dumps 2 record_example = record_text"
  by code_simp

lemma save_permitted_world0: "save_permitted world0"
  by (simp add: save_permitted_def ancestors_output_dir dir_ok_def world0_def file_path_def
        output_dir_def)

text \<open>
  With a non-empty record and no file system error in the way, \<^verbatim>\<open>save_weather\<close> returns
  the path of the file; afterwards that file holds the text of the record, the
  directories down to the output directory exist, and every other path is as before.
\<close>

lemma save_weather_ok:
  assumes "truthy (xcom_pull ctx ''transform_weather'')" and "save_permitted w"
  shows "fst (save_weather ctx w) = Inr (path_str (file_path (now w)))"
    and "fs (snd (save_weather ctx w)) =
           (\<lambda>p. if p = file_path (now w)
                then Some (File (json_dumps 2 (xcom_pull ctx ''transform_weather'')))
                else if p \<in> set (ancestors [] output_dir) then Some Dir
                else fs w p)"
proof -
  let ?w1 = "emit (LogInfo ''Starting weather save task...'' None) w"
  let ?w2 = "with_dirs (ancestors [] output_dir) ?w1"
  let ?p = "file_path (now w)"
  let ?text = "json_dumps 2 (xcom_pull ctx ''transform_weather'')"
  from assms(2) have "list_all (dir_ok ?w1) (ancestors [] output_dir)"
    by (simp add: save_permitted_def dir_ok_emit)
  then have mk: "mkdir_parents [] output_dir ?w1 = (Inr (), ?w2)"
    by (rule mkdir_parents_ok)
  have fs2: "fs ?w2 = (\<lambda>p. if p \<in> set (ancestors [] output_dir) then Some Dir else fs w p)"
    by (simp add: with_dirs_def emit_fields cong: if_cong)
  have fault2: "fault ?w2 = fault w"
    by (simp add: with_dirs_def emit_fields)
  have "fs ?w2 ?p = fs w ?p"
    using file_path_not_ancestor [of "now w"] by (simp add: fs2)
  with assms(2) have notdir: "fs ?w2 ?p \<noteq> Some Dir"
    by (simp add: save_permitted_def)
  have parent: "fs ?w2 (butlast ?p) = Some Dir"
    using output_dir_ancestor by (simp add: fs2 butlast_file_path)
  let ?w3 = "emit (FsOpenW ?p) (?w2\<lparr>fs := (fs ?w2)(?p \<mapsto> File [])\<rparr>)"
  have op: "open_w ?p ?w2 = (Inr (), ?w3)"
    using assms(2) notdir parent
    by (simp add: open_w_def fault2 save_permitted_def split: option.splits node.splits)
  let ?w4 = "emit (FsWrite ?p ?text) (?w3\<lparr>fs := (fs ?w3)(?p \<mapsto> File ?text)\<rparr>)"
  have wr: "write_close ?p ?text ?w3 = (Inr (), ?w4)"
    using assms(2) by (simp add: write_close_def emit_fields fault2 save_permitted_def)
  have res: "save_weather ctx w =
               (Inr (path_str ?p),
                emit (LogInfo (''Weather data successfully saved to '' @ path_str ?p) None) ?w4)"
    using assms(1) by (simp add: save_weather_def Let_def mk op wr)
  show "fst (save_weather ctx w) = Inr (path_str (file_path (now w)))"
    by (simp add: res)
  show "fs (snd (save_weather ctx w)) =
           (\<lambda>p. if p = file_path (now w)
                then Some (File (json_dumps 2 (xcom_pull ctx ''transform_weather'')))
                else if p \<in> set (ancestors [] output_dir) then Some Dir
                else fs w p)"
    by (simp add: res emit_fields fs2 fun_eq_iff)
qed



text \<open>
  C3. From the raw input \<^verbatim>\<open>{"current": {"temperature_2m": 15.3,
  "relative_humidity_2m": 80, "weather_code": 3}}\<close>, with the clock at
  2026-01-13T10:00:00, the Transformer returns the record \<open>record_example\<close>; the
  Persister, given that record at that time in a world without a file system error,
  returns \<^verbatim>\<open>/home/airflow/data/weather_20260113_100000.json\<close>, and that file then holds
  \<open>record_text\<close>, the record with an indent of two spaces.
\<close>

theorem end_to_end_scenario:
  assumes "ctx ''fetch_weather'' = Some raw_example" and "now w = clock0"
    and "ctx' ''transform_weather'' = Some record_example" and "now w' = clock0"
    and "save_permitted w'"
  shows "fst (transform_weather ctx w) = Inr record_example \<and>
         fst (save_weather ctx' w') = Inr ''/home/airflow/data/weather_20260113_100000.json'' \<and>
         fs (snd (save_weather ctx' w'))
            [''home'', ''airflow'', ''data'', ''weather_20260113_100000.json''] =
           Some (File record_text)"
proof -
  have "py_get raw_example ''current'' (PDict []) =
          Inr (PDict [(''temperature_2m'', PFloat ''15.3''),
                      (''relative_humidity_2m'', PInt 80),
                      (''weather_code'', PInt 3)])"
    by (simp add: py_get_def raw_example_def)
  then have t: "fst (transform_weather ctx w) = Inr record_example"
    using transform_on_dict
        [of ctx "[(''current'',
                   PDict [(''temperature_2m'', PFloat ''15.3''),
                          (''relative_humidity_2m'', PInt 80),
                          (''weather_code'', PInt 3)])]"
            "[(''temperature_2m'', PFloat ''15.3''), (''relative_humidity_2m'', PInt 80),
              (''weather_code'', PInt 3)]" w]
      assms(1,2)
    by (simp add: raw_example_def record_example_def location_def isoformat_clock0)
  have pulled: "xcom_pull ctx' ''transform_weather'' = record_example"
    using assms(3) by (simp add: xcom_pull_def)
  have "truthy (xcom_pull ctx' ''transform_weather'')"
    by (simp add: pulled record_example_def)
  note ok = save_weather_ok [OF this assms(5)]
  have p: "file_path (now w') =
             [''home'', ''airflow'', ''data'', ''weather_20260113_100000.json'']"
    by (simp add: file_path_def output_dir_def assms(4) strftime_clock0)
  have s: "fst (save_weather ctx' w') = Inr ''/home/airflow/data/weather_20260113_100000.json''"
    by (simp add: ok(1) path_str_file_path assms(4) strftime_clock0)
  have f: "fs (snd (save_weather ctx' w'))
             [''home'', ''airflow'', ''data'', ''weather_20260113_100000.json''] =
           Some (File record_text)"
    by (simp add: ok(2) p pulled json_dumps_record_example)
  from t s f show ?thesis by simp
qed

theorem end_to_end_scenario_witness:
  "fst (transform_weather [''fetch_weather'' \<mapsto> raw_example] world0) = Inr record_example \<and>
   fst (save_weather [''transform_weather'' \<mapsto> record_example] world0) =
     Inr ''/home/airflow/data/weather_20260113_100000.json'' \<and>
   fs (snd (save_weather [''transform_weather'' \<mapsto> record_example] world0))
      [''home'', ''airflow'', ''data'', ''weather_20260113_100000.json''] =
     Some (File record_text)"
  by (rule end_to_end_scenario) (simp_all add: now_world0 save_permitted_world0)

text \<open>
  C5. When the value handed over by the transform task is absent or empty, the
  Persister fails with the \<^verbatim>\<open>ValueError\<close> of missing data and writes no file: the file
  system is as it was and no file system operation is among the effects. On every
  non-empty value it does not raise that error.
\<close>

theorem save_weather_missing_data:
  "(\<not> truthy (xcom_pull ctx ''transform_weather'') \<longrightarrow>
      fst (save_weather ctx w) =
        Inl (ValueError ''No weather data received from transform task'') \<and>
      fs (snd (save_weather ctx w)) = fs w \<and>
      filter is_fs_event (events (snd (save_weather ctx w))) = filter is_fs_event (events w)) \<and>
   (truthy (xcom_pull ctx ''transform_weather'') \<longrightarrow>
      (\<forall>msg. fst (save_weather ctx w) \<noteq> Inl (ValueError msg)))"
  by (auto simp: save_weather_def save_failed_def Let_def emit_fields
           split: prod.splits sum.splits)

theorem save_weather_missing_data_witness:
  "fst (save_weather Map.empty world0) =
     Inl (ValueError ''No weather data received from transform task'') \<and>
   fst (save_weather [''transform_weather'' \<mapsto> PDict []] world0) =
     Inl (ValueError ''No weather data received from transform task'') \<and>
   fs (snd (save_weather Map.empty world0)) = fs world0 \<and>
   fst (save_weather [''transform_weather'' \<mapsto> record_example] world_blocked) \<noteq>
     Inl (ValueError ''No weather data received from transform task'')"
  using save_weather_missing_data [of Map.empty world0]
    save_weather_missing_data [of "[''transform_weather'' \<mapsto> PDict []]" world0]
    save_weather_missing_data [of "[''transform_weather'' \<mapsto> record_example]" world_blocked]
  by (simp add: xcom_pull_def record_example_def)

text \<open>
  C10. When the Persister fails for want of data, its one effect is the first log line:
  the world is otherwise the one it started in. The output directory is not created,
  since the test of the data comes before \<^verbatim>\<open>mkdir\<close>.
\<close>

theorem save_weather_no_mkdir_without_data:
  assumes "\<not> truthy (xcom_pull ctx ''transform_weather'')"
  shows "snd (save_weather ctx w) = emit (LogInfo ''Starting weather save task...'' None) w \<and>
         fs (snd (save_weather ctx w)) = fs w \<and>
         fs (snd (save_weather ctx w)) output_dir = fs w output_dir \<and>
         events (snd (save_weather ctx w)) =
           events w @ [LogInfo ''Starting weather save task...'' None]"
  using assms by (simp add: save_weather_def Let_def emit_fields)

theorem save_weather_no_mkdir_without_data_witness:
  "fs world0 output_dir = None \<and>
   fs (snd (save_weather Map.empty world0)) output_dir = None \<and>
   events (snd (save_weather Map.empty world0)) =
     [LogInfo ''Starting weather save task...'' None]"
  using save_weather_no_mkdir_without_data [of Map.empty world0]
  by (simp add: xcom_pull_def emit_fields world0_def output_dir_def)

end
